theory Spec2Isabelle
  imports Complex_Main "HOL-Library.Sublist" "HOL-Library.AList"
begin

section \<open>JSON values\<close>

text \<open>
  The server exchanges JSON values. A number is a finite numeric value (kept exact, as a
  rational); an object is the list of its entries in insertion order, read by key.
  \<open>JSON.parse\<close>, \<open>JSON.stringify\<close>, \<open>Date\<close> and \<open>Error.stack\<close> belong to the
  JavaScript runtime, not to this repository: wherever the code calls them the model takes
  them as parameters (\<open>jparse\<close>, \<open>jstringify\<close>, a clock reading, \<open>stackOf\<close>).
  Logging has no effect on any result and is left out.
\<close>

datatype json =
    JNull
  | JBool bool
  | JNumber rat
  | JString string
  | JArray "json list"
  | JObject "(string \<times> json) list"

text \<open>Property read \<open>obj[key]\<close> on an object; \<open>None\<close> is JavaScript's \<open>undefined\<close>.\<close>

definition get_prop :: "(string \<times> json) list \<Rightarrow> string \<Rightarrow> json option" where
  "get_prop kvs k = map_of kvs k"

section \<open>Protocol handler (class \<open>ProtocolHandler\<close> and its schemas)\<close>

datatype MCPErrorCode =
    PARSE_ERROR
  | INVALID_REQUEST
  | METHOD_NOT_FOUND
  | INVALID_PARAMS
  | INTERNAL_ERROR

fun code_number :: "MCPErrorCode \<Rightarrow> int" where
  "code_number PARSE_ERROR = - 32700"
| "code_number INVALID_REQUEST = - 32600"
| "code_number METHOD_NOT_FOUND = - 32601"
| "code_number INVALID_PARAMS = - 32602"
| "code_number INTERNAL_ERROR = - 32603"

text \<open>
  A thrown \<open>Error\<close>: its message and the \<open>code\<close> property the server attaches
  (\<open>None\<close> for a plain \<open>new Error(message)\<close>).
\<close>

record JsError =
  err_code :: "int option"
  err_message :: string

text \<open>The request id, \<open>string | number\<close>.\<close>

datatype RequestId = StringId string | NumberId rat

fun id_json :: "RequestId \<Rightarrow> json" where
  "id_json (StringId s) = JString s"
| "id_json (NumberId n) = JNumber n"

text \<open>\<open>BaseRequest\<close>, the output type of \<open>baseRequestSchema\<close>.\<close>

record BaseRequest =
  req_jsonrpc :: string
  req_id :: RequestId
  req_method :: string
  req_params :: "(string \<times> json) list option"

text \<open>
  The zod checks the schemas are built from, each applied to a property value that may be
  absent. \<open>z.string()\<close>, \<open>z.literal(s)\<close>, \<open>z.union([z.string(), z.number()])\<close> and
  \<open>z.record(z.unknown()).optional()\<close>; for the last the outer \<open>None\<close> is a validation
  failure and \<open>Some None\<close> an absent property.
\<close>

fun z_string :: "json option \<Rightarrow> string option" where
  "z_string (Some (JString s)) = Some s"
| "z_string _ = None"

fun z_literal :: "string \<Rightarrow> json option \<Rightarrow> bool" where
  "z_literal l (Some (JString s)) = (s = l)"
| "z_literal l _ = False"

fun z_string_or_number :: "json option \<Rightarrow> RequestId option" where
  "z_string_or_number (Some (JString s)) = Some (StringId s)"
| "z_string_or_number (Some (JNumber n)) = Some (NumberId n)"
| "z_string_or_number _ = None"

fun z_record_optional :: "json option \<Rightarrow> (string \<times> json) list option option" where
  "z_record_optional None = Some None"
| "z_record_optional (Some (JObject kvs)) = Some (Some kvs)"
| "z_record_optional _ = None"

text \<open>
  \<open>baseRequestSchema.parse\<close>: the value must be an object whose \<open>jsonrpc\<close> is the
  literal "2.0", whose \<open>id\<close> is a string or a number, whose \<open>method\<close> is a string and
  whose \<open>params\<close>, when present, is an object. Unknown keys are stripped.
\<close>

fun baseRequestSchema :: "json \<Rightarrow> BaseRequest option" where
  "baseRequestSchema (JObject kvs) =
     (if z_literal ''2.0'' (get_prop kvs ''jsonrpc'') then
        (case z_string_or_number (get_prop kvs ''id'') of
           None \<Rightarrow> None
         | Some i \<Rightarrow>
            (case z_string (get_prop kvs ''method'') of
               None \<Rightarrow> None
             | Some m \<Rightarrow>
                (case z_record_optional (get_prop kvs ''params'') of
                   None \<Rightarrow> None
                 | Some p \<Rightarrow>
                     Some \<lparr>req_jsonrpc = ''2.0'', req_id = i, req_method = m,
                            req_params = p\<rparr>)))
      else None)"
| "baseRequestSchema _ = None"

text \<open>The typed requests of the three method schemas.\<close>

record ClientInfo =
  client_name :: string
  client_version :: string

record InitializeParams =
  protocolVersion :: string
  capabilities :: "(string \<times> json) list option"
  clientInfo :: "ClientInfo option"

record ToolsCallParams =
  tool_name :: string
  arguments :: "(string \<times> json) list option"

text \<open>
  \<open>clientInfo: z.object({name: z.string(), version: z.string()}).optional()\<close>: outer
  \<open>None\<close> is a failure, \<open>Some None\<close> an absent property.
\<close>

fun z_clientInfo_optional :: "json option \<Rightarrow> ClientInfo option option" where
  "z_clientInfo_optional None = Some None"
| "z_clientInfo_optional (Some (JObject kvs)) =
     (case z_string (get_prop kvs ''name'') of
        None \<Rightarrow> None
      | Some n \<Rightarrow>
         (case z_string (get_prop kvs ''version'') of
            None \<Rightarrow> None
          | Some v \<Rightarrow> Some (Some \<lparr>client_name = n, client_version = v\<rparr>)))"
| "z_clientInfo_optional _ = None"

text \<open>
  \<open>initializeRequestSchema\<close>: the base fields again, \<open>method\<close> the literal
  "initialize", and \<open>params\<close> a required object with a string \<open>protocolVersion\<close>.
\<close>

definition initializeRequestSchema :: "BaseRequest \<Rightarrow> InitializeParams option" where
  "initializeRequestSchema r =
     (if req_jsonrpc r = ''2.0'' \<and> req_method r = ''initialize'' then
        (case req_params r of
           None \<Rightarrow> None
         | Some kvs \<Rightarrow>
            (case z_string (get_prop kvs ''protocolVersion'') of
               None \<Rightarrow> None
             | Some pv \<Rightarrow>
                (case z_record_optional (get_prop kvs ''capabilities'') of
                   None \<Rightarrow> None
                 | Some caps \<Rightarrow>
                    (case z_clientInfo_optional (get_prop kvs ''clientInfo'') of
                       None \<Rightarrow> None
                     | Some ci \<Rightarrow>
                         Some \<lparr>protocolVersion = pv, capabilities = caps,
                                clientInfo = ci\<rparr>))))
      else None)"

text \<open>
  \<open>toolsListRequestSchema\<close>: \<open>method\<close> the literal "tools/list", \<open>params\<close> an
  optional object of any content (a \<open>BaseRequest\<close> carries nothing else there).
\<close>

definition toolsListRequestSchema :: "BaseRequest \<Rightarrow> unit option" where
  "toolsListRequestSchema r =
     (if req_jsonrpc r = ''2.0'' \<and> req_method r = ''tools/list'' then Some () else None)"

text \<open>
  \<open>toolsCallRequestSchema\<close>: \<open>method\<close> the literal "tools/call", \<open>params\<close> a required
  object with a string \<open>name\<close> and an optional object \<open>arguments\<close>.
\<close>

definition toolsCallRequestSchema :: "BaseRequest \<Rightarrow> ToolsCallParams option" where
  "toolsCallRequestSchema r =
     (if req_jsonrpc r = ''2.0'' \<and> req_method r = ''tools/call'' then
        (case req_params r of
           None \<Rightarrow> None
         | Some kvs \<Rightarrow>
            (case z_string (get_prop kvs ''name'') of
               None \<Rightarrow> None
             | Some n \<Rightarrow>
                (case z_record_optional (get_prop kvs ''arguments'') of
                   None \<Rightarrow> None
                 | Some args \<Rightarrow> Some \<lparr>tool_name = n, arguments = args\<rparr>)))
      else None)"

text \<open>\<open>ProtocolHandler.createError\<close> (the attached \<open>data\<close> is never read again).\<close>

definition ProtocolHandler_createError :: "MCPErrorCode \<Rightarrow> string \<Rightarrow> JsError" where
  "ProtocolHandler_createError c msg = \<lparr>err_code = Some (code_number c), err_message = msg\<rparr>"

text \<open>
  \<open>parseMessage\<close>: \<open>JSON.parse\<close>, then the base schema; either failure is rethrown as
  a PARSE_ERROR.
\<close>

definition parseMessage :: "(string \<Rightarrow> json option) \<Rightarrow> string \<Rightarrow> JsError + BaseRequest" where
  "parseMessage jparse message =
     (case jparse message of
        None \<Rightarrow> Inl (ProtocolHandler_createError PARSE_ERROR ''Failed to parse JSON-RPC message'')
      | Some parsed \<Rightarrow>
         (case baseRequestSchema parsed of
            None \<Rightarrow>
              Inl (ProtocolHandler_createError PARSE_ERROR ''Failed to parse JSON-RPC message'')
          | Some r \<Rightarrow> Inr r))"

text \<open>\<open>validateRequest\<close>: a schema failure is rethrown as an INVALID_REQUEST.\<close>

definition validateRequest :: "BaseRequest \<Rightarrow> (BaseRequest \<Rightarrow> 'a option) \<Rightarrow> JsError + 'a" where
  "validateRequest request schema =
     (case schema request of
        None \<Rightarrow> Inl (ProtocolHandler_createError INVALID_REQUEST ''Invalid request format'')
      | Some v \<Rightarrow> Inr v)"

text \<open>The responses, as the JSON objects \<open>res.json\<close> sends.\<close>

definition createSuccessResponse :: "RequestId \<Rightarrow> json \<Rightarrow> json" where
  "createSuccessResponse i result =
     JObject [(''jsonrpc'', JString ''2.0''), (''id'', id_json i), (''result'', result)]"

text \<open>
  \<open>createErrorResponse\<close>: \<open>id ?? 0\<close> replaces \<open>null\<close> and \<open>undefined\<close> (both
  \<open>JNull\<close> here) by 0 and keeps every other value; an undefined \<open>data\<close> is not sent.
\<close>

definition createErrorResponse :: "json \<Rightarrow> int \<Rightarrow> string \<Rightarrow> json option \<Rightarrow> json" where
  "createErrorResponse i c msg data =
     JObject [(''jsonrpc'', JString ''2.0''),
              (''id'', if i = JNull then JNumber 0 else i),
              (''error'', JObject ([(''code'', JNumber (of_int c)), (''message'', JString msg)] @
                                   (case data of None \<Rightarrow> [] | Some d \<Rightarrow> [(''data'', d)])))]"



section \<open>Server manager (src/server/mcp-server.ts)\<close>

record Config =
  serverName :: string
  serverVersion :: string

record ServerState =
  initialized :: bool

text \<open>The constructor: \<open>private initialized: boolean = false\<close>.\<close>

definition new_MCPServerManager :: ServerState where
  "new_MCPServerManager = \<lparr>initialized = False\<rparr>"

definition createError :: "MCPErrorCode \<Rightarrow> string \<Rightarrow> JsError" where
  "createError c msg = \<lparr>err_code = Some (code_number c), err_message = msg\<rparr>"

definition createMethodNotFoundError :: "string \<Rightarrow> JsError" where
  "createMethodNotFoundError m = createError METHOD_NOT_FOUND (''Method not found: '' @ m)"

definition ensureInitialized :: "ServerState \<Rightarrow> JsError + unit" where
  "ensureInitialized s =
     (if \<not> initialized s
      then Inl (createError INVALID_REQUEST ''Server not initialized. Call initialize first.'')
      else Inr ())"

definition handleInitialize ::
  "Config \<Rightarrow> ServerState \<Rightarrow> BaseRequest \<Rightarrow> (JsError + json) \<times> ServerState" where
  "handleInitialize cfg s request =
     (case validateRequest request initializeRequestSchema of
        Inl e \<Rightarrow> (Inl e, s)
      | Inr validatedRequest \<Rightarrow>
          (Inr (JObject
                 [(''protocolVersion'', JString ''1.0.0''),
                  (''serverInfo'', JObject [(''name'', JString (serverName cfg)),
                                            (''version'', JString (serverVersion cfg))]),
                  (''capabilities'', JObject [(''tools'', JObject [])])]),
           s\<lparr>initialized := True\<rparr>))"

definition handleToolsList :: "ServerState \<Rightarrow> BaseRequest \<Rightarrow> (JsError + json) \<times> ServerState" where
  "handleToolsList s request =
     (case ensureInitialized s of
        Inl e \<Rightarrow> (Inl e, s)
      | Inr _ \<Rightarrow>
         (case validateRequest request toolsListRequestSchema of
            Inl e \<Rightarrow> (Inl e, s)
          | Inr _ \<Rightarrow> (Inr (JObject [(''tools'', JArray [])]), s)))"

definition handleToolsCall :: "ServerState \<Rightarrow> BaseRequest \<Rightarrow> (JsError + json) \<times> ServerState" where
  "handleToolsCall s request =
     (case ensureInitialized s of
        Inl e \<Rightarrow> (Inl e, s)
      | Inr _ \<Rightarrow>
         (case validateRequest request toolsCallRequestSchema of
            Inl e \<Rightarrow> (Inl e, s)
          | Inr validatedRequest \<Rightarrow>
              (Inl (createMethodNotFoundError
                     (''Tool not found: '' @ tool_name validatedRequest)), s)))"

text \<open>
  \<open>handlePing\<close>; \<open>timestamp\<close> is what \<open>new Date().toISOString()\<close> returns at the call.
\<close>

definition handlePing :: "string \<Rightarrow> json" where
  "handlePing timestamp =
     JObject [(''status'', JString ''pong''), (''timestamp'', JString timestamp)]"

text \<open>
  \<open>handleRequest\<close>: the switch on the method; the enclosing \<open>try/catch\<close> logs and
  rethrows. The result is the returned value or the thrown error, with the state after.
\<close>

definition handleRequest ::
  "Config \<Rightarrow> string \<Rightarrow> ServerState \<Rightarrow> BaseRequest \<Rightarrow> (JsError + json) \<times> ServerState" where
  "handleRequest cfg timestamp s request =
     (let m = req_method request in
      if m = ''initialize'' then handleInitialize cfg s request
      else if m = ''tools/list'' then handleToolsList s request
      else if m = ''tools/call'' then handleToolsCall s request
      else if m = ''ping'' then (Inr (handlePing timestamp), s)
      else (Inl (createMethodNotFoundError m), s))"

text \<open>A sequence of requests handled one after the other, each with its own clock reading.\<close>

fun handleRequests ::
  "Config \<Rightarrow> ServerState \<Rightarrow> (string \<times> BaseRequest) list \<Rightarrow> ServerState" where
  "handleRequests cfg s [] = s"
| "handleRequests cfg s ((ts, r) # rs) =
     handleRequests cfg (snd (handleRequest cfg ts s r)) rs"

section \<open>HTTP transport (src/server/transport.ts)\<close>

record HttpResponse =
  http_status :: nat
  http_body :: json

text \<open>JavaScript truthiness (\<open>!req.body\<close>) and \<open>typeof v === 'object'\<close> on JSON values.\<close>

fun truthy :: "json \<Rightarrow> bool" where
  "truthy JNull = False"
| "truthy (JBool b) = b"
| "truthy (JNumber n) = (n \<noteq> 0)"
| "truthy (JString s) = (s \<noteq> [])"
| "truthy (JArray xs) = True"
| "truthy (JObject kvs) = True"

fun typeof_object :: "json \<Rightarrow> bool" where
  "typeof_object JNull = True"
| "typeof_object (JArray xs) = True"
| "typeof_object (JObject kvs) = True"
| "typeof_object _ = False"

text \<open>A plain \<open>new Error(message)\<close>: no \<open>code\<close> property.\<close>

definition new_Error :: "string \<Rightarrow> JsError" where
  "new_Error msg = \<lparr>err_code = None, err_message = msg\<rparr>"

text \<open>
  The id recovered in the \<open>catch\<close> block of the \<open>POST /mcp\<close> handler:
  \<open>req.body.id\<close> when \<open>req.body\<close> is truthy, is an object and has the key, \<open>null\<close>
  otherwise. \<open>req.body\<close> is \<open>None\<close> when the JSON middleware left it undefined.
\<close>

definition recoverRequestId :: "json option \<Rightarrow> json" where
  "recoverRequestId body =
     (case body of
        None \<Rightarrow> JNull
      | Some b \<Rightarrow>
         (if truthy b \<and> typeof_object b then
            (case b of
               JObject kvs \<Rightarrow> (case get_prop kvs ''id'' of None \<Rightarrow> JNull | Some v \<Rightarrow> v)
             | _ \<Rightarrow> JNull)
          else JNull))"

text \<open>
  The \<open>try\<close> block of the handler: the parsed request with the handler's result, or the
  error thrown on the way. \<open>requestHandler\<close> is \<open>None\<close> until \<open>setRequestHandler\<close> ran.
\<close>

definition mcp_try ::
  "(string \<Rightarrow> json option) \<Rightarrow> (json \<Rightarrow> string) \<Rightarrow>
   ('s \<Rightarrow> BaseRequest \<Rightarrow> (JsError + json) \<times> 's) option \<Rightarrow> 's \<Rightarrow> json option \<Rightarrow>
   (JsError + BaseRequest \<times> json) \<times> 's" where
  "mcp_try jparse jstringify requestHandler s body =
     (case body of
        None \<Rightarrow> (Inl (new_Error ''Request body is required''), s)
      | Some b \<Rightarrow>
         (if \<not> truthy b then (Inl (new_Error ''Request body is required''), s)
          else
            (case parseMessage jparse (jstringify b) of
               Inl e \<Rightarrow> (Inl e, s)
             | Inr mcpRequest \<Rightarrow>
                (case requestHandler of
                   None \<Rightarrow> (Inl (new_Error ''Request handler not configured''), s)
                 | Some handler \<Rightarrow>
                    (case handler s mcpRequest of
                       (Inl e, s') \<Rightarrow> (Inl e, s')
                     | (Inr result, s') \<Rightarrow> (Inr (mcpRequest, result), s'))))))"

text \<open>
  The \<open>POST /mcp\<close> route: \<open>res.json(response)\<close> answers with Express's default status
  200, the \<open>catch\<close> block with \<open>res.status(500)\<close>. The error code is the error's
  numeric \<open>code\<close> if it has one and INTERNAL_ERROR otherwise; \<open>data\<close> is the error's
  stack trace.
\<close>

definition post_mcp ::
  "(string \<Rightarrow> json option) \<Rightarrow> (json \<Rightarrow> string) \<Rightarrow> (JsError \<Rightarrow> string) \<Rightarrow>
   ('s \<Rightarrow> BaseRequest \<Rightarrow> (JsError + json) \<times> 's) option \<Rightarrow> 's \<Rightarrow> json option \<Rightarrow>
   HttpResponse \<times> 's" where
  "post_mcp jparse jstringify stackOf requestHandler s body =
     (case mcp_try jparse jstringify requestHandler s body of
        (Inr (mcpRequest, result), s') \<Rightarrow>
          (\<lparr>http_status = 200,
            http_body = createSuccessResponse (req_id mcpRequest) result\<rparr>, s')
      | (Inl error, s') \<Rightarrow>
          (let errorCode = (case err_code error of
                              None \<Rightarrow> code_number INTERNAL_ERROR
                            | Some c \<Rightarrow> c);
               errorMessage = err_message error;
               requestId = recoverRequestId body
           in (\<lparr>http_status = 500,
                 http_body = createErrorResponse requestId errorCode errorMessage
                               (Some (JString (stackOf error)))\<rparr>, s')))"

text \<open>
  What \<open>express.json()\<close> hands on: a parse error (with its message), which Express
  passes to the application's error-handling middleware without running the route, or
  the request with \<open>req.body\<close> set.
\<close>

datatype BodyParse = BodyParseFailed string | BodyParsed "json option"

definition errorMiddleware :: "string \<Rightarrow> HttpResponse" where
  "errorMiddleware msg =
     \<lparr>http_status = 500,
      http_body = JObject [(''error'', JString ''Internal server error''),
                           (''message'', JString msg)]\<rparr>"

definition app_post_mcp ::
  "(string \<Rightarrow> json option) \<Rightarrow> (json \<Rightarrow> string) \<Rightarrow> (JsError \<Rightarrow> string) \<Rightarrow>
   ('s \<Rightarrow> BaseRequest \<Rightarrow> (JsError + json) \<times> 's) option \<Rightarrow> 's \<Rightarrow> BodyParse \<Rightarrow>
   HttpResponse \<times> 's" where
  "app_post_mcp jparse jstringify stackOf requestHandler s parsed =
     (case parsed of
        BodyParseFailed msg \<Rightarrow> (errorMiddleware msg, s)
      | BodyParsed body \<Rightarrow> post_mcp jparse jstringify stackOf requestHandler s body)"

text \<open>
  The transport of an \<open>MCPServerManager\<close>: \<open>setupHandlers\<close> installs
  \<open>handleRequest\<close> as the request handler.
\<close>

definition server_post_mcp ::
  "(string \<Rightarrow> json option) \<Rightarrow> (json \<Rightarrow> string) \<Rightarrow> (JsError \<Rightarrow> string) \<Rightarrow>
   Config \<Rightarrow> string \<Rightarrow> ServerState \<Rightarrow> json option \<Rightarrow> HttpResponse \<times> ServerState" where
  "server_post_mcp jparse jstringify stackOf cfg timestamp s body =
     post_mcp jparse jstringify stackOf (Some (handleRequest cfg timestamp)) s body"

section \<open>Server-sent events (src/server/transport.ts)\<close>

text \<open>
  The Express response of an SSE connection: the chunks written to it so far and whether
  \<open>end()\<close> was called. Response objects live in a store indexed by a handle: they are
  shared between the registry and the connection, and outlive their registry entry.
\<close>

record Stream =
  written :: "string list"
  ended :: bool

record SSEClient =
  client_id :: string
  response :: nat
  lastActivity :: int

text \<open>
  The transport: \<open>sseClients\<close> is the JavaScript \<open>Map\<close>, kept as the list of its
  entries in insertion order (\<open>get\<close> is \<open>map_of\<close>, \<open>set\<close> is \<open>AList.update\<close>,
  \<open>delete\<close> is \<open>AList.delete\<close>). Times are milliseconds since the epoch
  (\<open>Date.getTime()\<close>).
\<close>

record Transport =
  sseClients :: "(string \<times> SSEClient) list"
  responses :: "nat \<Rightarrow> Stream"

definition new_HTTPTransport :: Transport where
  "new_HTTPTransport = \<lparr>sseClients = [], responses = (\<lambda>h. \<lparr>written = [], ended = False\<rparr>)\<rparr>"

text \<open>
  A registry as the \<open>GET /sse\<close> route builds it: one entry per client id (a
  \<open>Map\<close> has one entry per key) and one response object per connection.
\<close>

definition registry_ok :: "Transport \<Rightarrow> bool" where
  "registry_ok t =
     (distinct (map fst (sseClients t)) \<and> distinct (map (\<lambda>e. response (snd e)) (sseClients t)))"

definition response_write :: "nat \<Rightarrow> string \<Rightarrow> (nat \<Rightarrow> Stream) \<Rightarrow> (nat \<Rightarrow> Stream)" where
  "response_write h chunk rs = rs(h := (rs h)\<lparr>written := written (rs h) @ [chunk]\<rparr>)"

definition response_end :: "nat \<Rightarrow> (nat \<Rightarrow> Stream) \<Rightarrow> (nat \<Rightarrow> Stream)" where
  "response_end h rs = rs(h := (rs h)\<lparr>ended := True\<rparr>)"

text \<open>The frame \<open>`event: ${event}\ndata: ${JSON.stringify(data)}\n\n`\<close>.\<close>

definition sse_message :: "(json \<Rightarrow> string) \<Rightarrow> string \<Rightarrow> json \<Rightarrow> string" where
  "sse_message jstringify event data =
     ''event: '' @ event @ ''\<newline>data: '' @ jstringify data @ ''\<newline>\<newline>''"

text \<open>\<open>sendSSEMessage\<close>; \<open>now\<close> is the clock reading of \<open>new Date()\<close>.\<close>

definition sendSSEMessage ::
  "(json \<Rightarrow> string) \<Rightarrow> int \<Rightarrow> Transport \<Rightarrow> string \<Rightarrow> string \<Rightarrow> json \<Rightarrow> bool \<times> Transport" where
  "sendSSEMessage jstringify now t clientId event data =
     (case map_of (sseClients t) clientId of
        None \<Rightarrow> (False, t)
      | Some client \<Rightarrow>
          (let message = sse_message jstringify event data
           in (True,
               t\<lparr>responses := response_write (response client) message (responses t),
                 sseClients := AList.update clientId (client\<lparr>lastActivity := now\<rparr>)
                                 (sseClients t)\<rparr>)))"

text \<open>
  \<open>broadcastSSEMessage\<close>: one frame, written to every client in the registry's order;
  each client object gets the clock reading (one reading for the whole synchronous loop).
\<close>

definition broadcastSSEMessage ::
  "(json \<Rightarrow> string) \<Rightarrow> int \<Rightarrow> Transport \<Rightarrow> string \<Rightarrow> json \<Rightarrow> Transport" where
  "broadcastSSEMessage jstringify now t event data =
     (let message = sse_message jstringify event data
      in t\<lparr>responses := fold (\<lambda>e rs. response_write (response (snd e)) message rs)
                           (sseClients t) (responses t),
           sseClients := map (\<lambda>e. (fst e, (snd e)\<lparr>lastActivity := now\<rparr>)) (sseClients t)\<rparr>)"

definition getSSEClientCount :: "Transport \<Rightarrow> nat" where
  "getSSEClientCount t = length (sseClients t)"

text \<open>
  \<open>cleanupInactiveClients\<close>: the \<open>forEach\<close> visits the entries in order; an inactive
  client's response is ended and its entry deleted (deleting the entry being visited does
  not disturb the iteration). \<open>removedClients\<close> is only logged.
\<close>

definition inactiveMinutes :: "int \<Rightarrow> SSEClient \<Rightarrow> rat" where
  "inactiveMinutes now client = of_int (now - lastActivity client) / 1000 / 60"

fun cleanup_forEach ::
  "int \<Rightarrow> rat \<Rightarrow> (string \<times> SSEClient) list \<Rightarrow> Transport \<times> string list \<Rightarrow>
   Transport \<times> string list" where
  "cleanup_forEach now maxInactiveMinutes [] acc = acc"
| "cleanup_forEach now maxInactiveMinutes ((clientId, client) # rest) (t, removedClients) =
     (if inactiveMinutes now client > maxInactiveMinutes
      then cleanup_forEach now maxInactiveMinutes rest
             (t\<lparr>responses := response_end (response client) (responses t),
                sseClients := AList.delete clientId (sseClients t)\<rparr>,
              removedClients @ [clientId])
      else cleanup_forEach now maxInactiveMinutes rest (t, removedClients))"

text \<open>The parameter defaults to 30 minutes when the caller passes none.\<close>

definition cleanupInactiveClients :: "int \<Rightarrow> rat option \<Rightarrow> Transport \<Rightarrow> Transport" where
  "cleanupInactiveClients now maxInactiveMinutes t =
     fst (cleanup_forEach now (case maxInactiveMinutes of None \<Rightarrow> 30 | Some m \<Rightarrow> m)
            (sseClients t) (t, []))"

text \<open>
  The \<open>GET /sse\<close> route: register the client under a new id with its response object and
  push the \<open>connected\<close> event; on \<open>close\<close> the entry is deleted. The keep-alive timer
  fires every 30000 ms: it cancels itself when the client is gone and pushes a \<open>ping\<close>
  otherwise.
\<close>

definition sse_connect ::
  "(json \<Rightarrow> string) \<Rightarrow> int \<Rightarrow> string \<Rightarrow> string \<Rightarrow> nat \<Rightarrow> Transport \<Rightarrow> Transport" where
  "sse_connect jstringify now timestamp clientId res t =
     snd (sendSSEMessage jstringify now
            (t\<lparr>sseClients := AList.update clientId
                                \<lparr>client_id = clientId, response = res, lastActivity = now\<rparr>
                                (sseClients t)\<rparr>)
            clientId ''connected''
            (JObject [(''clientId'', JString clientId), (''timestamp'', JString timestamp)]))"

definition sse_close :: "string \<Rightarrow> Transport \<Rightarrow> Transport" where
  "sse_close clientId t = t\<lparr>sseClients := AList.delete clientId (sseClients t)\<rparr>"

definition keepAliveIntervalMs :: int where
  "keepAliveIntervalMs = 30000"

datatype TimerState = Cleared | Running

definition keepAliveInterval ::
  "(json \<Rightarrow> string) \<Rightarrow> int \<Rightarrow> string \<Rightarrow> string \<Rightarrow> Transport \<Rightarrow> TimerState \<times> Transport" where
  "keepAliveInterval jstringify now timestamp clientId t =
     (if map_of (sseClients t) clientId = None then (Cleared, t)
      else (Running,
            snd (sendSSEMessage jstringify now t clientId ''ping''
                   (JObject [(''timestamp'', JString timestamp)]))))"

section \<open>Envelope fields of a text\<close>




section \<open>Example inputs\<close>

text \<open>
  The inputs the properties below are run on: the default configuration, a fragment of
  the runtime's \<open>JSON.parse\<close> and \<open>JSON.stringify\<close> (a few texts with the values they
  denote), a stack trace, and a registry of two streaming clients.
\<close>

definition example_config :: Config where
  "example_config = \<lparr>serverName = ''skyfi-mcp-server'', serverVersion = ''0.1.0''\<rparr>"

definition ping_text :: string where
  \<open>ping_text = ''{"jsonrpc":"2.0","id":7,"method":"ping"}''\<close>

definition ping_string_id_text :: string where
  \<open>ping_string_id_text = ''{"jsonrpc":"2.0","id":"7","method":"ping"}''\<close>

definition ping_array_params_text :: string where
  \<open>ping_array_params_text = ''{"jsonrpc":"2.0","id":7,"method":"ping","params":[]}''\<close>

definition ping_boolean_id_text :: string where
  \<open>ping_boolean_id_text = ''{"jsonrpc":"2.0","id":true,"method":"ping"}''\<close>

definition tools_list_text :: string where
  \<open>tools_list_text = ''{"jsonrpc":"2.0","id":7,"method":"tools/list"}''\<close>

definition resources_list_text :: string where
  \<open>resources_list_text = ''{"jsonrpc":"2.0","id":7,"method":"resources/list"}''\<close>

definition example_body :: "json \<Rightarrow> string \<Rightarrow> json" where
  "example_body i m =
     JObject [(''jsonrpc'', JString ''2.0''), (''id'', i), (''method'', JString m)]"

definition example_texts :: "(string \<times> json) list" where
  "example_texts =
     [(ping_text, example_body (JNumber 7) ''ping''),
      (ping_string_id_text, example_body (JString ''7'') ''ping''),
      (ping_array_params_text,
       JObject [(''jsonrpc'', JString ''2.0''), (''id'', JNumber 7),
                (''method'', JString ''ping''), (''params'', JArray [])]),
      (ping_boolean_id_text, example_body (JBool True) ''ping''),
      (tools_list_text, example_body (JNumber 7) ''tools/list''),
      (resources_list_text, example_body (JNumber 7) ''resources/list''),
      (''{}'', JObject [])]"


definition example_stringify :: "json \<Rightarrow> string" where
  "example_stringify v =
     (case find (\<lambda>e. snd e = v) example_texts of None \<Rightarrow> ''null'' | Some e \<Rightarrow> fst e)"


definition example_transport :: Transport where
  "example_transport =
     \<lparr>sseClients = [(''a'', \<lparr>client_id = ''a'', response = 0, lastActivity = 0\<rparr>),
                    (''b'', \<lparr>client_id = ''b'', response = 1, lastActivity = 1790000\<rparr>)],
      responses = (\<lambda>h. \<lparr>written = [], ended = False\<rparr>)\<rparr>"

section \<open>Properties of the dispatcher\<close>

lemma handleInitialize_invalid:
  "initializeRequestSchema request = None \<Longrightarrow>
     handleInitialize cfg s request =
       (Inl (ProtocolHandler_createError INVALID_REQUEST ''Invalid request format''), s)"
  by (simp add: handleInitialize_def validateRequest_def)

lemma handleInitialize_valid:
  "initializeRequestSchema request = Some v \<Longrightarrow>
     handleInitialize cfg s request =
       (Inr (JObject
              [(''protocolVersion'', JString ''1.0.0''),
               (''serverInfo'', JObject [(''name'', JString (serverName cfg)),
                                         (''version'', JString (serverVersion cfg))]),
               (''capabilities'', JObject [(''tools'', JObject [])])]),
        s\<lparr>initialized := True\<rparr>)"
  by (simp add: handleInitialize_def validateRequest_def)

lemma handleRequest_initialized_mono:
  "initialized s \<Longrightarrow> initialized (snd (handleRequest cfg timestamp s request))"
  by (simp add: handleRequest_def handleInitialize_def handleToolsList_def
      handleToolsCall_def Let_def split: sum.splits)

lemma handleRequests_initialized_mono:
  "initialized s \<Longrightarrow> initialized (handleRequests cfg s rs)"
proof (induction rs arbitrary: s)
  case Nil
  then show ?case by simp
next
  case (Cons a rs)
  obtain ts r where a: "a = (ts, r)" by (cases a)
  from Cons.prems have "initialized (snd (handleRequest cfg ts s r))"
    by (rule handleRequest_initialized_mono)
  then show ?case unfolding a by (simp add: Cons.IH)
qed

lemma handleRequest_sets_initialized:
  assumes "\<not> initialized s" and "initialized (snd (handleRequest cfg timestamp s request))"
  shows "req_method request = ''initialize'' \<and> initializeRequestSchema request \<noteq> None
         \<and> (\<exists>v. fst (handleRequest cfg timestamp s request) = Inr v)"
proof -
  have m: "req_method request = ''initialize''"
    using assms
    by (auto simp: handleRequest_def handleToolsList_def handleToolsCall_def
        ensureInitialized_def Let_def split: if_splits)
  then have h: "handleRequest cfg timestamp s request = handleInitialize cfg s request"
    by (simp add: handleRequest_def)
  show ?thesis
  proof (cases "initializeRequestSchema request")
    case None
    with assms h show ?thesis by (simp add: handleInitialize_invalid)
  next
    case (Some v)
    with m h show ?thesis by (simp add: handleInitialize_valid)
  qed
qed

text \<open>
  Claim C1. While the session is uninitialized, every \<open>tools/list\<close> and every
  \<open>tools/call\<close> request is answered with an INVALID_REQUEST error (code -32600) whose
  message contains "not initialized", and the state is left as it was. The request is
  arbitrary, so this holds whether or not its params would pass the method's schema: the
  initialization check comes first.
\<close>

theorem uninitialized_tools_report_not_initialized:
  assumes "\<not> initialized s"
    and "req_method request = ''tools/list'' \<or> req_method request = ''tools/call''"
  shows "\<exists>e. handleRequest cfg timestamp s request = (Inl e, s)
           \<and> err_code e = Some (code_number INVALID_REQUEST)
           \<and> sublist ''not initialized'' (err_message e)"
proof -
  have sub: "sublist ''not initialized'' ''Server not initialized. Call initialize first.''"
    by code_simp
  from assms have "handleRequest cfg timestamp s request =
      (Inl (createError INVALID_REQUEST ''Server not initialized. Call initialize first.''), s)"
    by (auto simp: handleRequest_def handleToolsList_def handleToolsCall_def
        ensureInitialized_def Let_def)
  with sub show ?thesis by (simp add: createError_def)
qed

text \<open>
  The witness is a \<open>tools/call\<close> without params, which the schema of \<open>tools/call\<close>
  rejects: before initialization the answer is still "not initialized".
\<close>

theorem uninitialized_tools_report_not_initialized_witness:
  "\<not> initialized new_MCPServerManager
   \<and> validateRequest \<lparr>req_jsonrpc = ''2.0'', req_id = NumberId 1, req_method = ''tools/call'',
        req_params = None\<rparr> toolsCallRequestSchema
      = (Inl (ProtocolHandler_createError INVALID_REQUEST ''Invalid request format'')
          :: JsError + ToolsCallParams)
   \<and> (\<exists>e. handleRequest example_config ''2025-11-15T23:40:00.000Z'' new_MCPServerManager
             \<lparr>req_jsonrpc = ''2.0'', req_id = NumberId 1, req_method = ''tools/call'',
               req_params = None\<rparr> = (Inl e, new_MCPServerManager)
           \<and> err_code e = Some (- 32600)
           \<and> sublist ''not initialized'' (err_message e))"
proof -
  have a: "\<not> initialized new_MCPServerManager" by (simp add: new_MCPServerManager_def)
  have b: "req_method \<lparr>req_jsonrpc = ''2.0'', req_id = NumberId 1,
                       req_method = ''tools/call'', req_params = None\<rparr> = ''tools/list''
         \<or> req_method \<lparr>req_jsonrpc = ''2.0'', req_id = NumberId 1,
                        req_method = ''tools/call'', req_params = None\<rparr> = ''tools/call''"
    by simp
  show ?thesis
    using uninitialized_tools_report_not_initialized [OF a b] a
    by (simp add: validateRequest_def toolsCallRequestSchema_def)
qed

text \<open>
  Claim C2. The \<open>initialized\<close> flag starts false. No request, and no sequence of
  requests, turns it from true to false. A request that turns it from false to true is
  an \<open>initialize\<close> that passed validation and returned a result; an \<open>initialize\<close>
  whose params fail validation returns an error and leaves the state as it was. An
  \<open>initialize\<close> that passes validation returns its result in every state, so sending it
  again after it succeeded returns the same result and the flag stays true.
\<close>

theorem initialized_flag_monotonic:
  "\<not> initialized new_MCPServerManager
   \<and> (initialized s \<longrightarrow> initialized (snd (handleRequest cfg timestamp s request)))
   \<and> (initialized s \<longrightarrow> initialized (handleRequests cfg s rs))
   \<and> (\<not> initialized s \<and> initialized (snd (handleRequest cfg timestamp s request)) \<longrightarrow>
        req_method request = ''initialize'' \<and> initializeRequestSchema request \<noteq> None
        \<and> (\<exists>v. fst (handleRequest cfg timestamp s request) = Inr v))
   \<and> (req_method request = ''initialize'' \<and> initializeRequestSchema request = None \<longrightarrow>
        (\<exists>e. handleRequest cfg timestamp s request = (Inl e, s)))
   \<and> (req_method request = ''initialize'' \<and> initializeRequestSchema request \<noteq> None \<longrightarrow>
        (\<exists>v. handleRequest cfg timestamp s request = (Inr v, s\<lparr>initialized := True\<rparr>)
           \<and> (\<forall>timestamp'. handleRequest cfg timestamp' (s\<lparr>initialized := True\<rparr>) request
                  = (Inr v, s\<lparr>initialized := True\<rparr>))))"
proof -
  have a: "\<not> initialized new_MCPServerManager" by (simp add: new_MCPServerManager_def)
  have b: "initialized s \<longrightarrow> initialized (snd (handleRequest cfg timestamp s request))"
    by (simp add: handleRequest_initialized_mono)
  have c: "initialized s \<longrightarrow> initialized (handleRequests cfg s rs)"
    by (simp add: handleRequests_initialized_mono)
  have d: "\<not> initialized s \<and> initialized (snd (handleRequest cfg timestamp s request)) \<longrightarrow>
        req_method request = ''initialize'' \<and> initializeRequestSchema request \<noteq> None
        \<and> (\<exists>v. fst (handleRequest cfg timestamp s request) = Inr v)"
    using handleRequest_sets_initialized by blast
  have e: "req_method request = ''initialize'' \<and> initializeRequestSchema request = None \<longrightarrow>
        (\<exists>e. handleRequest cfg timestamp s request = (Inl e, s))"
    by (simp add: handleRequest_def handleInitialize_invalid)
  have f: "req_method request = ''initialize'' \<and> initializeRequestSchema request \<noteq> None \<longrightarrow>
        (\<exists>v. handleRequest cfg timestamp s request = (Inr v, s\<lparr>initialized := True\<rparr>)
           \<and> (\<forall>timestamp'. handleRequest cfg timestamp' (s\<lparr>initialized := True\<rparr>) request
                  = (Inr v, s\<lparr>initialized := True\<rparr>)))"
    by (auto simp: handleRequest_def handleInitialize_valid)
  from a b c d e f show ?thesis by blast
qed

text \<open>
  The witness: an \<open>initialize\<close> without \<open>protocolVersion\<close> leaves a new server
  uninitialized; a valid one initializes it; the same request sent again succeeds and the
  server stays initialized, as it does after a later failing \<open>initialize\<close>.
\<close>

theorem initialized_flag_monotonic_witness:
  "initializeRequestSchema \<lparr>req_jsonrpc = ''2.0'', req_id = NumberId 1,
       req_method = ''initialize'', req_params = Some []\<rparr> = None
   \<and> \<not> initialized (snd (handleRequest example_config ''t0'' new_MCPServerManager
          \<lparr>req_jsonrpc = ''2.0'', req_id = NumberId 1, req_method = ''initialize'',
            req_params = Some []\<rparr>))
   \<and> initializeRequestSchema \<lparr>req_jsonrpc = ''2.0'', req_id = NumberId 1,
       req_method = ''initialize'',
       req_params = Some [(''protocolVersion'', JString ''1.0.0'')]\<rparr> \<noteq> None
   \<and> (\<exists>v. handleRequest example_config ''t1'' new_MCPServerManager
          \<lparr>req_jsonrpc = ''2.0'', req_id = NumberId 1, req_method = ''initialize'',
            req_params = Some [(''protocolVersion'', JString ''1.0.0'')]\<rparr>
            = (Inr v, \<lparr>initialized = True\<rparr>)
         \<and> handleRequest example_config ''t2'' \<lparr>initialized = True\<rparr>
          \<lparr>req_jsonrpc = ''2.0'', req_id = NumberId 1, req_method = ''initialize'',
            req_params = Some [(''protocolVersion'', JString ''1.0.0'')]\<rparr>
            = (Inr v, \<lparr>initialized = True\<rparr>))
   \<and> initialized (snd (handleRequest example_config ''t3'' \<lparr>initialized = True\<rparr>
          \<lparr>req_jsonrpc = ''2.0'', req_id = NumberId 1, req_method = ''initialize'',
            req_params = Some []\<rparr>))"
proof -
  let ?bad = "\<lparr>req_jsonrpc = ''2.0'', req_id = NumberId 1, req_method = ''initialize'',
            req_params = Some []\<rparr>"
  let ?ok = "\<lparr>req_jsonrpc = ''2.0'', req_id = NumberId 1, req_method = ''initialize'',
            req_params = Some [(''protocolVersion'', JString ''1.0.0'')]\<rparr>"
  have bad: "req_method ?bad = ''initialize'' \<and> initializeRequestSchema ?bad = None"
    by (simp add: initializeRequestSchema_def get_prop_def)
  have ok: "req_method ?ok = ''initialize'' \<and> initializeRequestSchema ?ok \<noteq> None"
    by (simp add: initializeRequestSchema_def get_prop_def)
  have new: "new_MCPServerManager\<lparr>initialized := True\<rparr> = \<lparr>initialized = True\<rparr>"
    by (simp add: new_MCPServerManager_def)
  from bad initialized_flag_monotonic [of new_MCPServerManager example_config "''t0''" ?bad "[]"]
  have 1: "\<not> initialized (snd (handleRequest example_config ''t0'' new_MCPServerManager ?bad))"
    by (auto simp: new_MCPServerManager_def)
  from ok initialized_flag_monotonic [of new_MCPServerManager example_config "''t1''" ?ok "[]"]
  have 2: "\<exists>v. handleRequest example_config ''t1'' new_MCPServerManager ?ok
                 = (Inr v, \<lparr>initialized = True\<rparr>)
             \<and> handleRequest example_config ''t2'' \<lparr>initialized = True\<rparr> ?ok
                 = (Inr v, \<lparr>initialized = True\<rparr>)"
    unfolding new by blast
  from initialized_flag_monotonic [of "\<lparr>initialized = True\<rparr>" example_config "''t3''" ?bad "[]"]
  have 3: "initialized (snd (handleRequest example_config ''t3'' \<lparr>initialized = True\<rparr> ?bad))"
    by simp
  from bad ok 1 2 3 show ?thesis by blast
qed

text \<open>
  A METHOD_NOT_FOUND error (code -32601) comes out of the dispatcher exactly for a method
  outside the four known ones and for a \<open>tools/call\<close> that passed the initialization
  check and the schema (no tool is registered, so every name is unknown).
\<close>

lemma method_not_found_iff:
  "(\<exists>e. fst (handleRequest cfg timestamp s request) = Inl e
        \<and> err_code e = Some (code_number METHOD_NOT_FOUND))
   \<longleftrightarrow> (req_method request \<notin> {''initialize'', ''tools/list'', ''tools/call'', ''ping''}
        \<or> (req_method request = ''tools/call'' \<and> initialized s
            \<and> toolsCallRequestSchema request \<noteq> None))"
  by (auto simp: handleRequest_def handleInitialize_def handleToolsList_def
      handleToolsCall_def ensureInitialized_def validateRequest_def createError_def
      createMethodNotFoundError_def ProtocolHandler_createError_def Let_def
      split: option.splits)

lemma unknown_tool_error:
  "initialized s \<Longrightarrow> toolsCallRequestSchema request = Some p \<Longrightarrow>
     handleRequest cfg timestamp s request =
       (Inl \<lparr>err_code = Some (- 32601),
             err_message = ''Method not found: Tool not found: '' @ tool_name p\<rparr>, s)"
  by (auto simp: handleRequest_def handleToolsCall_def ensureInitialized_def
      validateRequest_def createError_def createMethodNotFoundError_def
      toolsCallRequestSchema_def Let_def split: if_splits)

text \<open>
  Claim C3. The claim gives the message of the unknown-tool error as
  "Tool not found: <name>". The dispatcher passes that text to
  \<open>createMethodNotFoundError\<close>, which puts "Method not found: " in front of its argument:
  for the tool name "unknown-tool", sent after initialization, the error has code -32601
  and the message "Method not found: Tool not found: unknown-tool".
\<close>

theorem unknown_tool_message_prefixed:
  "handleRequest cfg timestamp \<lparr>initialized = True\<rparr>
     \<lparr>req_jsonrpc = ''2.0'', req_id = NumberId 2, req_method = ''tools/call'',
       req_params = Some [(''name'', JString ''unknown-tool''), (''arguments'', JObject [])]\<rparr>
   = (Inl \<lparr>err_code = Some (- 32601),
           err_message = ''Method not found: Tool not found: unknown-tool''\<rparr>,
      \<lparr>initialized = True\<rparr>)"
  by (simp add: handleRequest_def handleToolsCall_def ensureInitialized_def
      validateRequest_def toolsCallRequestSchema_def get_prop_def
      createMethodNotFoundError_def createError_def)



section \<open>Properties of the request endpoint\<close>









text \<open>
  A body that \<open>express.json()\<close> cannot parse never reaches the route: its error goes to
  the error-handling middleware, which answers 500 as well.
\<close>

lemma unparseable_body_status:
  "http_status (fst (app_post_mcp jparse jstringify stackOf requestHandler s
                       (BodyParseFailed msg))) = 500"
  by (simp add: app_post_mcp_def errorMiddleware_def)

text \<open>
  The id of an error response: what \<open>recoverRequestId\<close> found in the body, or 0 when it
  found nothing or \<open>null\<close>. A string or a number is echoed, a missing id gives 0.
\<close>

lemma error_response_id:
  assumes "fst (mcp_try jparse jstringify requestHandler s body) = Inl error"
  shows "\<exists>c d. http_body (fst (post_mcp jparse jstringify stackOf requestHandler s body))
           = JObject [(''jsonrpc'', JString ''2.0''),
                      (''id'', if recoverRequestId body = JNull then JNumber 0
                               else recoverRequestId body),
                      (''error'', JObject [(''code'', JNumber c),
                                           (''message'', JString (err_message error)),
                                           (''data'', d)])]"
  using assms
  by (auto simp: post_mcp_def Let_def createErrorResponse_def split: prod.splits sum.splits)

lemma recoverRequestId_cases:
  "recoverRequestId None = JNull"
  "recoverRequestId (Some (JArray xs)) = JNull"
  "get_prop kvs ''id'' = None \<Longrightarrow> recoverRequestId (Some (JObject kvs)) = JNull"
  "get_prop kvs ''id'' = Some v \<Longrightarrow> recoverRequestId (Some (JObject kvs)) = v"
  by (simp_all add: recoverRequestId_def)


text \<open>
  The endpoint changes the server's state only through the request handler, so the
  \<open>initialized\<close> flag stays true across every request to \<open>POST /mcp\<close>.
\<close>

lemma mcp_try_state:
  "snd (mcp_try jparse jstringify (Some handler) s body) =
     (case body of
        None \<Rightarrow> s
      | Some b \<Rightarrow>
         (if truthy b then
            (case parseMessage jparse (jstringify b) of
               Inl e \<Rightarrow> s
             | Inr r \<Rightarrow> snd (handler s r))
          else s))"
  by (simp add: mcp_try_def split: option.splits sum.splits prod.splits)

lemma post_mcp_state:
  "snd (post_mcp jparse jstringify stackOf requestHandler s body)
     = snd (mcp_try jparse jstringify requestHandler s body)"
  by (simp add: post_mcp_def Let_def split: prod.splits sum.splits)

lemma server_post_mcp_initialized_mono:
  assumes "initialized s"
  shows "initialized (snd (server_post_mcp jparse jstringify stackOf cfg timestamp s body))"
  unfolding server_post_mcp_def post_mcp_state mcp_try_state
  using assms handleRequest_initialized_mono [OF assms, of cfg timestamp]
  by (simp split: option.splits sum.splits)

section \<open>Properties of the message codec\<close>







section \<open>Properties of the streaming registry\<close>

lemma cleanup_forEach_fold:
  "fst (cleanup_forEach now mx es (t, rm)) =
     t\<lparr>responses := fold (\<lambda>e rs. if inactiveMinutes now (snd e) > mx
                                  then response_end (response (snd e)) rs else rs)
                        es (responses t),
       sseClients := fold (\<lambda>e m. if inactiveMinutes now (snd e) > mx
                                  then AList.delete (fst e) m else m)
                        es (sseClients t)\<rparr>"
  by (induction es arbitrary: t rm) auto

lemma fold_delete_filter:
  "fold (\<lambda>e m. if P e then AList.delete (fst e) m else m) es m =
     filter (\<lambda>e'. \<not> (\<exists>e \<in> set es. P e \<and> fst e = fst e')) m"
proof (induction es arbitrary: m)
  case Nil
  then show ?case by simp
next
  case (Cons a es)
  show ?case
    by (auto simp: Cons.IH AList.delete_eq intro!: filter_cong)
qed

lemma fold_delete_self:
  assumes "distinct (map fst es)"
  shows "fold (\<lambda>e m. if P e then AList.delete (fst e) m else m) es es = filter (\<lambda>e. \<not> P e) es"
proof -
  have "\<And>e'. e' \<in> set es \<Longrightarrow> (\<exists>e \<in> set es. P e \<and> fst e = fst e') = P e'"
    using assms by (metis eq_key_imp_eq_value prod.collapse)
  then show ?thesis
    unfolding fold_delete_filter by (auto intro!: filter_cong)
qed



lemma cleanup_sseClients:
  assumes "distinct (map fst (sseClients t))"
  shows "sseClients (cleanupInactiveClients now m t) =
           filter (\<lambda>e. \<not> inactiveMinutes now (snd e) > (case m of None \<Rightarrow> 30 | Some x \<Rightarrow> x))
             (sseClients t)"
  using fold_delete_self [OF assms]
  by (simp add: cleanupInactiveClients_def cleanup_forEach_fold)



text \<open>
  Claim C8. \<open>sendSSEMessage\<close> returns true exactly when the client id is in the
  registry. For an id that is not, it returns false and changes nothing. For an id that
  is, it appends one chunk to that client's response, the frame
  \<open>event: <name>\ndata: <json>\n\n\<close>, and leaves every other response as it was.
\<close>

theorem sendSSEMessage_found_iff_written:
  "(fst (sendSSEMessage jstringify now t clientId event data)
      \<longleftrightarrow> clientId \<in> fst ` set (sseClients t))
   \<and> (clientId \<notin> fst ` set (sseClients t) \<longrightarrow>
        sendSSEMessage jstringify now t clientId event data = (False, t))
   \<and> (\<forall>client. map_of (sseClients t) clientId = Some client \<longrightarrow>
        (let t' = snd (sendSSEMessage jstringify now t clientId event data)
         in written (responses t' (response client))
              = written (responses t (response client))
                @ [''event: '' @ event @ ''\<newline>data: '' @ jstringify data @ ''\<newline>\<newline>'']
            \<and> ended (responses t' (response client)) = ended (responses t (response client))
            \<and> (\<forall>h. h \<noteq> response client \<longrightarrow> responses t' h = responses t h)))"
proof -
  have a: "fst (sendSSEMessage jstringify now t clientId event data)
      \<longleftrightarrow> clientId \<in> fst ` set (sseClients t)"
    by (auto simp: sendSSEMessage_def Let_def map_of_eq_None_iff
        split: option.splits dest: map_of_SomeD intro: rev_image_eqI)
  have b: "clientId \<notin> fst ` set (sseClients t) \<longrightarrow>
        sendSSEMessage jstringify now t clientId event data = (False, t)"
  proof
    assume "clientId \<notin> fst ` set (sseClients t)"
    then have "map_of (sseClients t) clientId = None"
      using map_of_eq_None_iff by fastforce
    then show "sendSSEMessage jstringify now t clientId event data = (False, t)"
      by (simp add: sendSSEMessage_def)
  qed
  have c: "\<forall>client. map_of (sseClients t) clientId = Some client \<longrightarrow>
        (let t' = snd (sendSSEMessage jstringify now t clientId event data)
         in written (responses t' (response client))
              = written (responses t (response client))
                @ [''event: '' @ event @ ''\<newline>data: '' @ jstringify data @ ''\<newline>\<newline>'']
            \<and> ended (responses t' (response client)) = ended (responses t (response client))
            \<and> (\<forall>h. h \<noteq> response client \<longrightarrow> responses t' h = responses t h))"
    by (simp add: sendSSEMessage_def Let_def response_write_def sse_message_def)
  from a b c show ?thesis by blast
qed

text \<open>
  The witness: a ping with the payload \<open>{}\<close> to the registered client "b" and to the
  unknown client "c".
\<close>

theorem sendSSEMessage_found_iff_written_witness:
  "map_of (sseClients example_transport) ''b''
     = Some \<lparr>client_id = ''b'', response = 1, lastActivity = 1790000\<rparr>
   \<and> fst (sendSSEMessage example_stringify 1800000 example_transport ''b'' ''ping'' (JObject []))
   \<and> written (responses (snd (sendSSEMessage example_stringify 1800000 example_transport
                                 ''b'' ''ping'' (JObject []))) 1)
       = [''event: ping\<newline>data: {}\<newline>\<newline>'']
   \<and> written (responses (snd (sendSSEMessage example_stringify 1800000 example_transport
                                 ''b'' ''ping'' (JObject []))) 0) = []
   \<and> ''c'' \<notin> fst ` set (sseClients example_transport)
   \<and> sendSSEMessage example_stringify 1800000 example_transport ''c'' ''ping'' (JObject [])
       = (False, example_transport)"
proof -
  have b: "map_of (sseClients example_transport) ''b''
     = Some \<lparr>client_id = ''b'', response = 1, lastActivity = 1790000\<rparr>"
    by (simp add: example_transport_def)
  have c: "''c'' \<notin> fst ` set (sseClients example_transport)"
    by (simp add: example_transport_def)
  note thb = sendSSEMessage_found_iff_written
    [of example_stringify 1800000 example_transport "''b''" "''ping''" "JObject []"]
  note thc = sendSSEMessage_found_iff_written
    [of example_stringify 1800000 example_transport "''c''" "''ping''" "JObject []"]
  from thb b have b1: "fst (sendSSEMessage example_stringify 1800000 example_transport ''b''
                              ''ping'' (JObject []))"
    by (simp add: example_transport_def)
  from thb b have b2: "written (responses (snd (sendSSEMessage example_stringify 1800000
               example_transport ''b'' ''ping'' (JObject []))) 1)
       = [''event: ping\<newline>data: {}\<newline>\<newline>'']"
    by (simp add: Let_def example_transport_def example_stringify_def example_texts_def
        example_body_def)
  from thb b have b3: "written (responses (snd (sendSSEMessage example_stringify 1800000
               example_transport ''b'' ''ping'' (JObject []))) 0) = []"
    by (simp add: Let_def example_transport_def)
  from thc c have c1: "sendSSEMessage example_stringify 1800000 example_transport ''c''
                         ''ping'' (JObject []) = (False, example_transport)"
    by blast
  from b b1 b2 b3 c c1 show ?thesis by blast
qed



lemma broadcast_keys:
  "map fst (sseClients (broadcastSSEMessage jstringify now t event data)) = map fst (sseClients t)"
  by (simp add: broadcastSSEMessage_def Let_def comp_def)

lemma broadcast_lastActivity:
  "e \<in> set (sseClients (broadcastSSEMessage jstringify now t event data))
     \<Longrightarrow> lastActivity (snd e) = now"
  by (auto simp: broadcastSSEMessage_def Let_def)

lemma send_keys:
  "map fst (sseClients (snd (sendSSEMessage jstringify now t clientId event data)))
     = map fst (sseClients t)"
proof (cases "map_of (sseClients t) clientId")
  case None
  then show ?thesis by (simp add: sendSSEMessage_def)
next
  case (Some client)
  then have "(clientId, client) \<in> set (sseClients t)" by (rule map_of_SomeD)
  then have "clientId \<in> set (map fst (sseClients t))" by force
  with Some show ?thesis by (simp add: sendSSEMessage_def Let_def update_keys)
qed

lemma send_lastActivity:
  "map_of (sseClients t) clientId = Some client \<Longrightarrow>
     map_of (sseClients (snd (sendSSEMessage jstringify now t clientId event data))) clientId
       = Some (client\<lparr>lastActivity := now\<rparr>)"
  by (simp add: sendSSEMessage_def Let_def update_conv')

lemma keepAlive_registered:
  "map_of (sseClients t) clientId = Some client \<Longrightarrow>
     keepAliveInterval jstringify now timestamp clientId t =
       (Running, snd (sendSSEMessage jstringify now t clientId ''ping''
                        (JObject [(''timestamp'', JString timestamp)])))"
  by (simp add: keepAliveInterval_def)

lemma map_of_filter_keep:
  "map_of xs k = Some v \<Longrightarrow> P (k, v) \<Longrightarrow> map_of (filter P xs) k = Some v"
  by (induction xs) (auto split: if_splits)

text \<open>
  Claim C10. \<open>sendSSEMessage\<close> keeps the registry's ids and sets the written client's
  \<open>lastActivity\<close> to the clock reading; \<open>broadcastSSEMessage\<close> keeps the ids and sets
  every client's \<open>lastActivity\<close> to the clock reading. So a registered client that got
  its keep-alive ping at most one keep-alive period (30000 ms) before a sweep, whose
  threshold exceeds that period, is still registered after the sweep.
\<close>

theorem writes_refresh_lastActivity:
  "map fst (sseClients (snd (sendSSEMessage jstringify now t clientId event data)))
     = map fst (sseClients t)
   \<and> (\<forall>client. map_of (sseClients t) clientId = Some client \<longrightarrow>
        map_of (sseClients (snd (sendSSEMessage jstringify now t clientId event data))) clientId
          = Some (client\<lparr>lastActivity := now\<rparr>))
   \<and> map fst (sseClients (broadcastSSEMessage jstringify now t event data))
       = map fst (sseClients t)
   \<and> (\<forall>e \<in> set (sseClients (broadcastSSEMessage jstringify now t event data)).
        lastActivity (snd e) = now)
   \<and> (\<forall>client now' maxInactiveMinutes.
        distinct (map fst (sseClients t))
        \<and> map_of (sseClients t) clientId = Some client
        \<and> now' - now \<le> keepAliveIntervalMs
        \<and> of_int keepAliveIntervalMs / 1000 / 60
              < (case maxInactiveMinutes of None \<Rightarrow> 30 | Some m \<Rightarrow> m) \<longrightarrow>
        map_of (sseClients (cleanupInactiveClients now' maxInactiveMinutes
                  (snd (keepAliveInterval jstringify now timestamp clientId t)))) clientId
          = Some (client\<lparr>lastActivity := now\<rparr>))"
proof -
  have e: "map_of (sseClients (cleanupInactiveClients now' mx
                  (snd (keepAliveInterval jstringify now timestamp clientId t)))) clientId
          = Some (client\<lparr>lastActivity := now\<rparr>)"
    if d: "distinct (map fst (sseClients t))"
      and c: "map_of (sseClients t) clientId = Some client"
      and n: "now' - now \<le> keepAliveIntervalMs"
      and m: "of_int keepAliveIntervalMs / 1000 / 60
                < (case mx of None \<Rightarrow> 30 | Some m \<Rightarrow> m)"
    for client now' mx
  proof -
    let ?t1 = "snd (sendSSEMessage jstringify now t clientId ''ping''
                        (JObject [(''timestamp'', JString timestamp)]))"
    have k: "snd (keepAliveInterval jstringify now timestamp clientId t) = ?t1"
      by (simp add: keepAlive_registered [OF c])
    have d1: "distinct (map fst (sseClients ?t1))"
      using d by (simp add: send_keys)
    have c1: "map_of (sseClients ?t1) clientId = Some (client\<lparr>lastActivity := now\<rparr>)"
      by (rule send_lastActivity [OF c])
    have "(of_int (now' - now) :: rat) \<le> of_int keepAliveIntervalMs"
      using n by (simp only: of_int_le_iff)
    then have "(of_int (now' - now) :: rat) / 1000 / 60 \<le> of_int keepAliveIntervalMs / 1000 / 60"
      by (simp add: divide_right_mono)
    with m have i: "\<not> inactiveMinutes now' (client\<lparr>lastActivity := now\<rparr>)
                       > (case mx of None \<Rightarrow> 30 | Some m \<Rightarrow> m)"
      by (simp add: inactiveMinutes_def)
    show ?thesis
      unfolding k cleanup_sseClients [OF d1]
      using c1 i by (intro map_of_filter_keep) simp_all
  qed
  have a: "map fst (sseClients (snd (sendSSEMessage jstringify now t clientId event data)))
     = map fst (sseClients t)"
    by (rule send_keys)
  have b: "\<forall>client. map_of (sseClients t) clientId = Some client \<longrightarrow>
        map_of (sseClients (snd (sendSSEMessage jstringify now t clientId event data))) clientId
          = Some (client\<lparr>lastActivity := now\<rparr>)"
    by (simp add: send_lastActivity)
  have c: "map fst (sseClients (broadcastSSEMessage jstringify now t event data))
       = map fst (sseClients t)"
    by (rule broadcast_keys)
  have d: "\<forall>e \<in> set (sseClients (broadcastSSEMessage jstringify now t event data)).
        lastActivity (snd e) = now"
    using broadcast_lastActivity by blast
  from e have e': "\<forall>client now' maxInactiveMinutes.
        distinct (map fst (sseClients t))
        \<and> map_of (sseClients t) clientId = Some client
        \<and> now' - now \<le> keepAliveIntervalMs
        \<and> of_int keepAliveIntervalMs / 1000 / 60
              < (case maxInactiveMinutes of None \<Rightarrow> 30 | Some m \<Rightarrow> m) \<longrightarrow>
        map_of (sseClients (cleanupInactiveClients now' maxInactiveMinutes
                  (snd (keepAliveInterval jstringify now timestamp clientId t)))) clientId
          = Some (client\<lparr>lastActivity := now\<rparr>)"
    by blast
  from a b c d e' show ?thesis by (intro conjI)
qed

text \<open>
  The witness: client "a", last active at 0, is pinged at 1800000 ms; the sweep at
  1830000 ms with the default threshold keeps it, and so does one with a threshold of one
  minute.
\<close>

theorem writes_refresh_lastActivity_witness:
  "distinct (map fst (sseClients example_transport))
   \<and> map_of (sseClients example_transport) ''a''
       = Some \<lparr>client_id = ''a'', response = 0, lastActivity = 0\<rparr>
   \<and> map_of (sseClients (cleanupInactiveClients 1830000 None
         (snd (keepAliveInterval example_stringify 1800000 ''t'' ''a'' example_transport)))) ''a''
       = Some \<lparr>client_id = ''a'', response = 0, lastActivity = 1800000\<rparr>
   \<and> map_of (sseClients (cleanupInactiveClients 1830000 (Some 1)
         (snd (keepAliveInterval example_stringify 1800000 ''t'' ''a'' example_transport)))) ''a''
       = Some \<lparr>client_id = ''a'', response = 0, lastActivity = 1800000\<rparr>
   \<and> map fst (sseClients (broadcastSSEMessage example_stringify 1800000 example_transport
                  ''ping'' (JObject []))) = [''a'', ''b'']
   \<and> map (\<lambda>e. lastActivity (snd e))
        (sseClients (broadcastSSEMessage example_stringify 1800000 example_transport
                  ''ping'' (JObject []))) = [1800000, 1800000]"
proof -
  have d: "distinct (map fst (sseClients example_transport))"
    by (simp add: example_transport_def)
  have a: "map_of (sseClients example_transport) ''a''
       = Some \<lparr>client_id = ''a'', response = 0, lastActivity = 0\<rparr>"
    by (simp add: example_transport_def)
  have n: "(1830000 :: int) - 1800000 \<le> keepAliveIntervalMs"
    by (simp add: keepAliveIntervalMs_def)
  have m1: "(of_int keepAliveIntervalMs :: rat) / 1000 / 60
              < (case None of None \<Rightarrow> 30 | Some m \<Rightarrow> m)"
    and m2: "(of_int keepAliveIntervalMs :: rat) / 1000 / 60
              < (case Some 1 of None \<Rightarrow> 30 | Some m \<Rightarrow> m)"
    by (simp_all add: keepAliveIntervalMs_def)
  note th = writes_refresh_lastActivity [where t = example_transport and clientId = "''a''"
      and now = 1800000 and jstringify = example_stringify and timestamp = "''t''"
      and event = "''ping''" and data = "JObject []"]
  from th d a n m1
  have 1: "map_of (sseClients (cleanupInactiveClients 1830000 None
         (snd (keepAliveInterval example_stringify 1800000 ''t'' ''a'' example_transport)))) ''a''
       = Some (\<lparr>client_id = ''a'', response = 0, lastActivity = 0\<rparr>\<lparr>lastActivity := 1800000\<rparr>)"
    by blast
  from th d a n m2
  have 2: "map_of (sseClients (cleanupInactiveClients 1830000 (Some 1)
         (snd (keepAliveInterval example_stringify 1800000 ''t'' ''a'' example_transport)))) ''a''
       = Some (\<lparr>client_id = ''a'', response = 0, lastActivity = 0\<rparr>\<lparr>lastActivity := 1800000\<rparr>)"
    by blast
  from th have 3: "map fst (sseClients (broadcastSSEMessage example_stringify 1800000
                  example_transport ''ping'' (JObject []))) = [''a'', ''b'']"
    by (simp add: example_transport_def)
  have 4: "map (\<lambda>e. lastActivity (snd e))
        (sseClients (broadcastSSEMessage example_stringify 1800000 example_transport
                  ''ping'' (JObject []))) = [1800000, 1800000]"
    by (simp add: broadcastSSEMessage_def example_transport_def Let_def)
  from d a 1 2 3 4 show ?thesis by simp
qed

text \<open>
  The hypothesis of the sweep's property is an invariant of the registry: it holds at
  construction, a connection with a new id and its own response object keeps it, and so
  do sending, broadcasting, the sweep and a disconnection.
\<close>

lemma registry_ok_new: "registry_ok new_HTTPTransport"
  by (simp add: registry_ok_def new_HTTPTransport_def)

lemma update_fresh:
  "k \<notin> fst ` set al \<Longrightarrow> AList.update k v al = al @ [(k, v)]"
  by (induction al) auto

lemma update_handles:
  "map_of al k = Some c \<Longrightarrow> response c' = response c \<Longrightarrow>
     map (\<lambda>e. response (snd e)) (AList.update k c' al) = map (\<lambda>e. response (snd e)) al"
  by (induction al) (auto split: if_splits)

lemma registry_ok_send:
  assumes "registry_ok t"
  shows "registry_ok (snd (sendSSEMessage jstringify now t clientId event data))"
proof (cases "map_of (sseClients t) clientId")
  case None
  with assms show ?thesis by (simp add: sendSSEMessage_def)
next
  case (Some client)
  have "map (\<lambda>e. response (snd e))
          (AList.update clientId (client\<lparr>lastActivity := now\<rparr>) (sseClients t))
        = map (\<lambda>e. response (snd e)) (sseClients t)"
    by (rule update_handles [OF Some]) simp
  with assms Some show ?thesis
    by (simp add: registry_ok_def sendSSEMessage_def Let_def distinct_update)
qed

lemma registry_ok_broadcast:
  "registry_ok t \<Longrightarrow> registry_ok (broadcastSSEMessage jstringify now t event data)"
  by (simp add: registry_ok_def broadcastSSEMessage_def Let_def comp_def)

lemma registry_ok_cleanup:
  assumes "registry_ok t"
  shows "registry_ok (cleanupInactiveClients now m t)"
proof -
  from assms have d: "distinct (map fst (sseClients t))"
    by (simp add: registry_ok_def)
  from assms show ?thesis
    unfolding registry_ok_def cleanup_sseClients [OF d]
    by (simp add: distinct_map_filter)
qed

lemma registry_ok_close:
  "registry_ok t \<Longrightarrow> registry_ok (sse_close clientId t)"
  by (simp add: registry_ok_def sse_close_def AList.delete_eq distinct_map_filter)

lemma registry_ok_connect:
  assumes "registry_ok t"
    and "clientId \<notin> fst ` set (sseClients t)"
    and "res \<notin> (\<lambda>e. response (snd e)) ` set (sseClients t)"
  shows "registry_ok (sse_connect jstringify now timestamp clientId res t)"
proof -
  let ?t1 = "t\<lparr>sseClients := AList.update clientId
                                \<lparr>client_id = clientId, response = res, lastActivity = now\<rparr>
                                (sseClients t)\<rparr>"
  from assms(2) have u: "AList.update clientId
                                \<lparr>client_id = clientId, response = res, lastActivity = now\<rparr>
                                (sseClients t)
      = sseClients t @ [(clientId, \<lparr>client_id = clientId, response = res, lastActivity = now\<rparr>)]"
    by (rule update_fresh)
  have "registry_ok ?t1"
    using assms by (simp add: registry_ok_def u image_iff)
  then show ?thesis
    unfolding sse_connect_def by (rule registry_ok_send)
qed

end
